theory Spec2Isabelle
  imports Main "HOL-Library.Sublist"
begin

section \<open>Sample resolution (app/sampleresolver.py)\<close>

text \<open>
  A shallow embedding of \<^verbatim>\<open>app/sampleresolver.py\<close>: the hashable wrapper of a
  sample, the three resolvers (one per searchable attribute), the token resolver that
  unions their results and the sample resolver that intersects the per-token sets.

  Python's \<^verbatim>\<open>int\<close> is \<^typ>\<open>int\<close>, \<^verbatim>\<open>str\<close> is \<^typ>\<open>string\<close>. A raised exception is the
  \<open>Inl\<close> branch of a sum. What the code does to its collaborators (the queries it sends
  to the database session, the errors it hands to the logger) is returned as a list of
  events beside the result.
\<close>

subsection \<open>Data\<close>

datatype exception =
  ProjectNotFound
  | AttributeError
  | TypeError
  | OperationalError string

text \<open>
  The fields of \<^verbatim>\<open>models.Sample\<close> that the resolvers read: \<^verbatim>\<open>id\<close>, \<^verbatim>\<open>obfuscated_id\<close>,
  \<^verbatim>\<open>_project_id\<close> and \<^verbatim>\<open>name\<close>. (\<open>id\<close> is a constant of HOL, and a name cannot start
  with an underscore.)
\<close>

record Sample =
  id' :: int
  obfuscated_id :: string
  project_id :: int
  name :: string

record Method =
  method_id :: int
  method_name :: string

text \<open>
  A \<^verbatim>\<open>models.SampleStage\<close> row as the object-relational mapper hands it out: the
  relationships \<^verbatim>\<open>s.sample\<close> and the stage's method are objects reached from the row.
\<close>

record SampleStage =
  stage_id :: int
  annotation :: string
  stage_sample :: Sample
  stage_method :: Method

text \<open>
  A \<^verbatim>\<open>models.Project\<close>: its \<^verbatim>\<open>id\<close>, which \<^verbatim>\<open>run\<close> reads as \<^verbatim>\<open>self.project.id\<close>, and the
  obfuscated id by which \<^verbatim>\<open>get_project\<close> looks it up.
\<close>

record Project =
  p_id :: int
  p_obfuscated_id :: string

subsection \<open>The hashable wrapper\<close>

datatype hashable_sample = HashableSample (sample: Sample)

type_synonym identity_key = "int \<times> string \<times> int"

text \<open>\<^verbatim>\<open>_HashableSample_.__key__\<close>\<close>

definition HashableSample_key :: "hashable_sample \<Rightarrow> identity_key" where
  "HashableSample_key self =
     (id' (sample self), obfuscated_id (sample self), project_id (sample self))"

text \<open>
  \<^verbatim>\<open>_HashableSample_.__hash__\<close>: Python's builtin \<^verbatim>\<open>hash\<close> applied to the key. The
  builtin is a function of the tuple (fixed within one interpreter run) and is taken as
  the parameter \<open>py_hash\<close>.
\<close>

definition HashableSample_hash :: "(identity_key \<Rightarrow> int) \<Rightarrow> hashable_sample \<Rightarrow> int" where
  "HashableSample_hash py_hash self = py_hash (HashableSample_key self)"

text \<open>
  The objects that can stand on the right of \<^verbatim>\<open>==\<close>. Of the classes involved only
  \<^verbatim>\<open>_HashableSample_\<close> defines \<^verbatim>\<open>__key__\<close>; looking the attribute up on any other object
  raises \<^verbatim>\<open>AttributeError\<close>.
\<close>

datatype pyobject =
  HashableSample_obj hashable_sample
  | Sample_obj Sample
  | None_obj
  | Int_obj int
  | Str_obj string
  | Tuple_obj "pyobject list"

fun call_key :: "pyobject \<Rightarrow> exception + identity_key" where
  "call_key (HashableSample_obj h) = Inr (HashableSample_key h)"
| "call_key (Sample_obj s) = Inl AttributeError"
| "call_key None_obj = Inl AttributeError"
| "call_key (Int_obj i) = Inl AttributeError"
| "call_key (Str_obj s) = Inl AttributeError"
| "call_key (Tuple_obj xs) = Inl AttributeError"

text \<open>\<^verbatim>\<open>_HashableSample_.__eq__\<close>: \<^verbatim>\<open>self.__key__() == o.__key__()\<close>\<close>

definition HashableSample_eq :: "hashable_sample \<Rightarrow> pyobject \<Rightarrow> exception + bool" where
  "HashableSample_eq self o' =
     (case call_key o' of
        Inl e \<Rightarrow> Inl e
      | Inr k \<Rightarrow> Inr (HashableSample_key self = k))"

subsection \<open>Python sets of wrappers\<close>

text \<open>
  A \<^verbatim>\<open>set\<close> of wrappers is a list without two elements of equal key. Membership goes
  through \<^verbatim>\<open>__hash__\<close> and \<^verbatim>\<open>__eq__\<close>, both functions of the key. The order of the list is
  the order of insertion; Python's iteration order is unspecified, and no statement
  below depends on it.
\<close>

type_synonym pyset = "hashable_sample list"

text \<open>The identity keys of the elements of a set.\<close>

abbreviation pyset_keys :: "pyset \<Rightarrow> identity_key set" where
  "pyset_keys s \<equiv> HashableSample_key ` set s"

definition pyset_contains :: "pyset \<Rightarrow> hashable_sample \<Rightarrow> bool" where
  "pyset_contains s x = list_ex (\<lambda>y. HashableSample_key y = HashableSample_key x) s"

text \<open>\<^verbatim>\<open>s.add(x)\<close>: an element equal to one already present is not stored.\<close>

definition pyset_add :: "hashable_sample \<Rightarrow> pyset \<Rightarrow> pyset" where
  "pyset_add x s = (if pyset_contains s x then s else s @ [x])"

text \<open>\<^verbatim>\<open>a | b\<close>: a copy of \<open>a\<close>, updated with the elements of \<open>b\<close>.\<close>

definition pyset_union :: "pyset \<Rightarrow> pyset \<Rightarrow> pyset" where
  "pyset_union a b = fold pyset_add b a"

text \<open>
  \<^verbatim>\<open>a & b\<close>: CPython walks the smaller operand (the right one when the sizes are equal)
  and keeps those of its elements that the other operand contains.
\<close>

definition pyset_intersection :: "pyset \<Rightarrow> pyset \<Rightarrow> pyset" where
  "pyset_intersection a b =
     (if length b > length a then filter (pyset_contains b) a
      else filter (pyset_contains a) b)"

text \<open>\<^verbatim>\<open>functools.reduce\<close> without an initial value raises on an empty sequence.\<close>

definition reduce :: "('a \<Rightarrow> 'a \<Rightarrow> 'a) \<Rightarrow> 'a list \<Rightarrow> exception + 'a" where
  "reduce f xs = (case xs of [] \<Rightarrow> Inl TypeError | x # rest \<Rightarrow> Inr (foldl f x rest))"

subsection \<open>The database session and the logger\<close>

text \<open>
  The persistence layer is a collaborator: each of the three queries of the source is a
  function of the project id and the pattern given to \<^verbatim>\<open>ilike\<close>, returning the rows of
  \<^verbatim>\<open>q.all()\<close> or the exception the session raised. The session is read only during a
  resolution, so a query is a function of its arguments.
\<close>

record session =
  projects :: "Project list"
  query_Sample_name :: "int \<Rightarrow> string \<Rightarrow> exception + Sample list"
  query_Method_name :: "int \<Rightarrow> string \<Rightarrow> exception + SampleStage list"
  query_SampleStage_annotation :: "int \<Rightarrow> string \<Rightarrow> exception + SampleStage list"

datatype column = Sample_name | Method_name | SampleStage_annotation

datatype resolver_type = SampleNameResolver | StageMethodResolver | StageAnnotationResolver

text \<open>
  \<open>Ilike c p pid\<close>: a query with the filters \<^verbatim>\<open>Sample._project_id == pid\<close> and
  \<^verbatim>\<open>c.ilike(p)\<close> was sent to the session. \<open>LogError t e\<close>: the resolver of type \<open>t\<close>
  handed the exception \<open>e\<close> to \<^verbatim>\<open>logger.error\<close>.
\<close>

datatype event =
  Ilike column string int
  | LogError resolver_type exception

text \<open>
  Modelled from the spec: \<^verbatim>\<open>models.get_project\<close> is not among the sources. The spec
  has the lookup of the project scope from the externally facing id fail with
  \<open>ProjectNotFound\<close> when no project has that id.
\<close>

definition get_project :: "session \<Rightarrow> string \<Rightarrow> exception + Project" where
  "get_project db obfuscated =
     (case find (\<lambda>p. p_obfuscated_id p = obfuscated) (projects db) of
        None \<Rightarrow> Inl ProjectNotFound
      | Some p \<Rightarrow> Inr p)"

subsection \<open>The resolvers\<close>

text \<open>The attributes of a \<^verbatim>\<open>_Resolver_\<close> thread object, and the class it is an instance of.\<close>

record resolver =
  cls :: resolver_type
  project :: Project
  token :: string
  results :: pyset

text \<open>
  The \<^verbatim>\<open>resolve\<close> method of each subclass: the query it sends, and the samples of the
  rows (or the exception of the session).
\<close>

fun resolver_resolve ::
  "session \<Rightarrow> resolver_type \<Rightarrow> string \<Rightarrow> int \<Rightarrow> (exception + Sample list) \<times> event list" where
  "resolver_resolve db StageAnnotationResolver tok pid =
     (case query_SampleStage_annotation db pid tok of
        Inl e \<Rightarrow> Inl e
      | Inr rows \<Rightarrow> Inr (map stage_sample rows),
      [Ilike SampleStage_annotation tok pid])"
| "resolver_resolve db SampleNameResolver tok pid =
     (query_Sample_name db pid tok, [Ilike Sample_name tok pid])"
| "resolver_resolve db StageMethodResolver tok pid =
     (case query_Method_name db pid tok of
        Inl e \<Rightarrow> Inl e
      | Inr rows \<Rightarrow> Inr (map stage_sample rows),
      [Ilike Method_name tok pid])"

text \<open>
  \<^verbatim>\<open>_Resolver_.run\<close>: the results start as the empty set; the samples of \<^verbatim>\<open>resolve\<close> are
  wrapped and added one by one; an exception of \<^verbatim>\<open>resolve\<close> is logged and swallowed.
  The list of \<^verbatim>\<open>resolve\<close> is complete before the loop starts, and wrapping and adding a
  persisted sample do not raise.
\<close>

definition run :: "session \<Rightarrow> resolver \<Rightarrow> resolver \<times> event list" where
  "run db self =
     (case resolver_resolve db (cls self) (token self) (p_id (project self)) of
        (Inr samples, evs) \<Rightarrow>
          (self\<lparr>results := fold (\<lambda>s r. pyset_add (HashableSample s) r) samples []\<rparr>, evs)
      | (Inl e, evs) \<Rightarrow>
          (self\<lparr>results := []\<rparr>, evs @ [LogError (cls self) e]))"

definition RESOLVER_TYPES :: "resolver_type list" where
  "RESOLVER_TYPES = [SampleNameResolver, StageMethodResolver, StageAnnotationResolver]"

text \<open>
  \<^verbatim>\<open>make_resolver\<close>, local to \<^verbatim>\<open>SampleTokenResolver.resolve\<close>; the format is
  \<^verbatim>\<open>'%%%s%%' % token\<close>. The attribute \<^verbatim>\<open>results\<close> is not read before \<^verbatim>\<open>run\<close> sets it.
\<close>

definition make_resolver :: "resolver_type \<Rightarrow> string \<Rightarrow> Project \<Rightarrow> resolver" where
  "make_resolver c tok proj =
     \<lparr>cls = c, project = proj, token = ''%'' @ tok @ ''%'', results = []\<rparr>"

text \<open>
  \<^verbatim>\<open>SampleTokenResolver(project).resolve(token)\<close>: the resolvers run one after the
  other on the caller's thread, and their result sets are united from the empty set.
\<close>

definition SampleTokenResolver_resolve :: "session \<Rightarrow> Project \<Rightarrow> string \<Rightarrow> pyset \<times> event list" where
  "SampleTokenResolver_resolve db proj tok =
     (let resolvers = map (\<lambda>t. make_resolver t tok proj) RESOLVER_TYPES;
          ran = map (run db) resolvers;
          candidate_results = map (\<lambda>r. results (fst r)) ran
      in (foldl (\<lambda>union s. pyset_union union s) [] candidate_results, concat (map snd ran)))"

text \<open>
  \<^verbatim>\<open>SampleResolver().resolve(tokens, project_id)\<close>: the per-token sets that are not empty
  are intersected; with none left the result is the empty list.
\<close>

definition resolve :: "session \<Rightarrow> string list \<Rightarrow> string \<Rightarrow> (exception + Sample list) \<times> event list" where
  "resolve db tokens pid =
     (case get_project db pid of
        Inl e \<Rightarrow> (Inl e, [])
      | Inr proj \<Rightarrow>
          (let resolved = map (SampleTokenResolver_resolve db proj) tokens;
               candidate_results = filter (\<lambda>s. length s > 0) (map fst resolved);
               evs = concat (map snd resolved)
           in if length candidate_results > 0
              then (case reduce (\<lambda>intersection s. pyset_intersection intersection s) candidate_results of
                      Inl e \<Rightarrow> (Inl e, evs)
                    | Inr r \<Rightarrow> (Inr (map sample r), evs))
              else (Inr [], evs)))"

subsection \<open>A session that never raises\<close>

text \<open>
  For stating what a swallowed exception amounts to: \<open>quiet db\<close> answers every query
  as \<open>db\<close> does, except that where \<open>db\<close> raises it returns no rows.
\<close>

definition no_rows_on_error ::
  "(int \<Rightarrow> string \<Rightarrow> exception + 'a list) \<Rightarrow> int \<Rightarrow> string \<Rightarrow> exception + 'a list" where
  "no_rows_on_error q pid pat = (case q pid pat of Inl e \<Rightarrow> Inr [] | Inr rows \<Rightarrow> Inr rows)"

definition quiet :: "session \<Rightarrow> session" where
  "quiet db =
     db\<lparr>query_Sample_name := no_rows_on_error (query_Sample_name db),
        query_Method_name := no_rows_on_error (query_Method_name db),
        query_SampleStage_annotation := no_rows_on_error (query_SampleStage_annotation db)\<rparr>"

subsection \<open>A session over tables\<close>

text \<open>
  The comparison the resolvers request. \<^verbatim>\<open>column.ilike(pattern)\<close> is rendered for SQLite
  (the backend the source names) as \<^verbatim>\<open>lower(column) LIKE lower(pattern)\<close>. In a \<^verbatim>\<open>LIKE\<close>
  pattern \<^verbatim>\<open>%\<close> stands for any run of characters, \<^verbatim>\<open>_\<close> for any one character, and
  there is no escape character unless the query names one (the resolvers name none).
  \<open>sql_like p v\<close> is \<^verbatim>\<open>v LIKE p\<close>.
\<close>

definition lower_char :: "char \<Rightarrow> char" where
  "lower_char c =
     (let n = (of_char c :: nat) in if 65 \<le> n \<and> n \<le> 90 then char_of (n + 32) else c)"

definition lower :: "string \<Rightarrow> string" where
  "lower s = map lower_char s"

fun sql_like :: "string \<Rightarrow> string \<Rightarrow> bool" where
  "sql_like [] v = (v = [])"
| "sql_like (c # p) [] = (c = CHR ''%'' \<and> sql_like p [])"
| "sql_like (c # p) (d # v) =
     (if c = CHR ''%'' then sql_like p (d # v) \<or> sql_like (c # p) v
      else (c = CHR ''_'' \<or> c = d) \<and> sql_like p v)"

definition ilike :: "string \<Rightarrow> string \<Rightarrow> bool" where
  "ilike v p = sql_like (lower p) (lower v)"

text \<open>
  The three queries of the source, evaluated over a table of samples and a table of
  stages (each stage row carrying the sample and the method it is joined to).
\<close>

definition table_session :: "Project list \<Rightarrow> Sample list \<Rightarrow> SampleStage list \<Rightarrow> session" where
  "table_session ps samples stages =
     \<lparr>projects = ps,
      query_Sample_name =
        (\<lambda>pid pat. Inr (filter (\<lambda>s. project_id s = pid \<and> ilike (name s) pat) samples)),
      query_Method_name =
        (\<lambda>pid pat. Inr (filter (\<lambda>st. project_id (stage_sample st) = pid
                                     \<and> ilike (method_name (stage_method st)) pat) stages)),
      query_SampleStage_annotation =
        (\<lambda>pid pat. Inr (filter (\<lambda>st. project_id (stage_sample st) = pid
                                     \<and> ilike (annotation st) pat) stages))\<rparr>"

subsection \<open>Example data\<close>

definition demo_project :: Project where
  "demo_project = \<lparr>p_id = 1, p_obfuscated_id = ''P''\<rparr>"

definition n1 :: Sample where
  "n1 = \<lparr>id' = 1, obfuscated_id = ''s1'', project_id = 1, name = ''alpha''\<rparr>"

definition n2 :: Sample where
  "n2 = \<lparr>id' = 2, obfuscated_id = ''s2'', project_id = 1, name = ''Beta-ALPHA''\<rparr>"

definition e1 :: Sample where
  "e1 = \<lparr>id' = 3, obfuscated_id = ''s3'', project_id = 1, name = ''x-ray''\<rparr>"

definition foreign_sample :: Sample where
  "foreign_sample = \<lparr>id' = 4, obfuscated_id = ''s4'', project_id = 2, name = ''alpha''\<rparr>"

definition polish :: Method where
  "polish = \<lparr>method_id = 1, method_name = ''polish''\<rparr>"

definition e1_stage :: SampleStage where
  "e1_stage = \<lparr>stage_id = 1, annotation = ''fix x'', stage_sample = e1, stage_method = polish\<rparr>"

definition demo_session :: session where
  "demo_session = table_session [demo_project] [n1, n2, e1, foreign_sample] [e1_stage]"

text \<open>The same tables behind a session whose method query raises.\<close>

definition flaky_session :: session where
  "flaky_session =
     demo_session\<lparr>query_Method_name := (\<lambda>pid pat. Inl (OperationalError ''database is locked''))\<rparr>"

section \<open>Properties\<close>

subsection \<open>Sets of wrappers\<close>

lemma pyset_contains_iff: "pyset_contains s x \<longleftrightarrow> HashableSample_key x \<in> pyset_keys s"
  unfolding pyset_contains_def list_ex_iff image_iff by metis

lemma keys_pyset_add: "pyset_keys (pyset_add x s) = insert (HashableSample_key x) (pyset_keys s)"
  by (auto simp: pyset_add_def pyset_contains_iff)

lemma distinct_pyset_add:
  "distinct (map HashableSample_key s) \<Longrightarrow> distinct (map HashableSample_key (pyset_add x s))"
  by (auto simp: pyset_add_def pyset_contains_iff)

lemma keys_fold_add:
  "pyset_keys (fold (\<lambda>x r. pyset_add (f x) r) xs s) = (HashableSample_key \<circ> f) ` set xs \<union> pyset_keys s"
  by (induction xs arbitrary: s) (auto simp: keys_pyset_add)

lemma distinct_fold_add:
  "distinct (map HashableSample_key s) \<Longrightarrow>
   distinct (map HashableSample_key (fold (\<lambda>x r. pyset_add (f x) r) xs s))"
  by (induction xs arbitrary: s) (auto simp: distinct_pyset_add)

lemma keys_pyset_union: "pyset_keys (pyset_union a b) = pyset_keys a \<union> pyset_keys b"
  using keys_fold_add [of "\<lambda>x. x" b a] by (auto simp: pyset_union_def)

lemma distinct_pyset_union:
  "distinct (map HashableSample_key a) \<Longrightarrow> distinct (map HashableSample_key (pyset_union a b))"
  using distinct_fold_add [of a "\<lambda>x. x" b] by (simp add: pyset_union_def)

lemma keys_foldl_union:
  "pyset_keys (foldl pyset_union a ss) = pyset_keys a \<union> (\<Union>s\<in>set ss. pyset_keys s)"
  by (induction ss arbitrary: a) (auto simp: keys_pyset_union)

lemma distinct_foldl_union:
  "distinct (map HashableSample_key a) \<Longrightarrow> distinct (map HashableSample_key (foldl pyset_union a ss))"
  by (induction ss arbitrary: a) (auto simp: distinct_pyset_union)



subsection \<open>Patterns\<close>






lemma lower_char_percent [simp]: "lower_char CHR ''%'' = CHR ''%''"
  by (simp add: lower_char_def)







subsection \<open>The wrapper\<close>

text \<open>
  C7: the keys of two wrapped samples are equal exactly when the three components
  (id, obfuscated id, project id) are pairwise equal; \<open>__eq__\<close> between two wrappers
  returns that comparison; and wrappers that compare equal have equal hashes.
\<close>

theorem identity_key_eq_iff:
  "(HashableSample_key a = HashableSample_key b \<longleftrightarrow>
      id' (sample a) = id' (sample b)
      \<and> obfuscated_id (sample a) = obfuscated_id (sample b)
      \<and> project_id (sample a) = project_id (sample b))
   \<and> HashableSample_eq a (HashableSample_obj b) = Inr (HashableSample_key a = HashableSample_key b)
   \<and> (HashableSample_eq a (HashableSample_obj b) = Inr True \<longrightarrow>
        HashableSample_hash py_hash a = HashableSample_hash py_hash b)"
  by (simp add: HashableSample_key_def HashableSample_eq_def HashableSample_hash_def)

text \<open>
  A sample and a copy of it under another name are equal as wrappers and hash alike;
  two samples of different id are not equal.
\<close>

theorem identity_key_eq_iff_witness:
  "HashableSample_eq (HashableSample e1) (HashableSample_obj (HashableSample (e1\<lparr>name := ''renamed''\<rparr>))) = Inr True
   \<and> HashableSample_hash (\<lambda>(i, s, p). i + p) (HashableSample e1)
     = HashableSample_hash (\<lambda>(i, s, p). i + p) (HashableSample (e1\<lparr>name := ''renamed''\<rparr>))
   \<and> HashableSample_eq (HashableSample e1) (HashableSample_obj (HashableSample n1)) = Inr False"
proof -
  have k: "HashableSample_key (HashableSample e1) = HashableSample_key (HashableSample (e1\<lparr>name := ''renamed''\<rparr>))"
    by (simp add: HashableSample_key_def)
  have n: "HashableSample_key (HashableSample e1) \<noteq> HashableSample_key (HashableSample n1)"
    by (simp add: HashableSample_key_def e1_def n1_def)
  show ?thesis
    using k n
      identity_key_eq_iff [of "HashableSample e1" "HashableSample (e1\<lparr>name := ''renamed''\<rparr>)" "\<lambda>(i, s, p). i + p"]
      identity_key_eq_iff [of "HashableSample e1" "HashableSample n1" "\<lambda>(i, s, p). i + p"]
    by simp
qed

text \<open>
  C9: comparing a wrapper with an object that has no \<open>__key__\<close> method (anything that
  is not itself a wrapper) raises \<open>AttributeError\<close>; it returns neither \<open>False\<close>
  nor \<open>NotImplemented\<close>.
\<close>

theorem eq_without_key_raises:
  "(\<forall>h. o' \<noteq> HashableSample_obj h) \<Longrightarrow> HashableSample_eq self o' = Inl AttributeError"
  by (cases o') (simp_all add: HashableSample_eq_def)

text \<open>\<open>None\<close>, a bare sample and the key tuple itself all raise.\<close>

theorem eq_without_key_raises_witness:
  "HashableSample_eq (HashableSample n1) None_obj = Inl AttributeError
   \<and> HashableSample_eq (HashableSample n1) (Sample_obj n1) = Inl AttributeError
   \<and> HashableSample_eq (HashableSample n1) (Tuple_obj [Int_obj 1, Str_obj ''s1'', Int_obj 1]) = Inl AttributeError"
  using eq_without_key_raises [of None_obj "HashableSample n1"]
    eq_without_key_raises [of "Sample_obj n1" "HashableSample n1"]
    eq_without_key_raises [of "Tuple_obj [Int_obj 1, Str_obj ''s1'', Int_obj 1]" "HashableSample n1"]
  by simp

subsection \<open>The token resolver\<close>

lemma results_run:
  "results (fst (run db r)) =
     (case fst (resolver_resolve db (cls r) (token r) (p_id (project r))) of
        Inl e \<Rightarrow> []
      | Inr samples \<Rightarrow> fold (\<lambda>s r. pyset_add (HashableSample s) r) samples [])"
  by (simp add: run_def split: prod.splits sum.splits)

lemma events_run:
  "snd (run db r) =
     snd (resolver_resolve db (cls r) (token r) (p_id (project r)))
     @ (case fst (resolver_resolve db (cls r) (token r) (p_id (project r))) of
          Inl e \<Rightarrow> [LogError (cls r) e]
        | Inr samples \<Rightarrow> [])"
  by (simp add: run_def split: prod.splits sum.splits)

lemma keys_results_run:
  "pyset_keys (results (fst (run db r))) =
     (case fst (resolver_resolve db (cls r) (token r) (p_id (project r))) of
        Inl e \<Rightarrow> {}
      | Inr samples \<Rightarrow> (\<lambda>s. HashableSample_key (HashableSample s)) ` set samples)"
  using keys_fold_add [of HashableSample _ "[]"]
  by (simp add: results_run comp_def split: sum.splits)

lemma distinct_results_run: "distinct (map HashableSample_key (results (fst (run db r))))"
  using distinct_fold_add [of "[]" HashableSample]
  by (simp add: results_run split: sum.splits)

lemma fst_token_resolve:
  "fst (SampleTokenResolver_resolve db proj tok) =
     foldl pyset_union [] (map (\<lambda>t. results (fst (run db (make_resolver t tok proj)))) RESOLVER_TYPES)"
  by (simp add: SampleTokenResolver_resolve_def Let_def comp_def)

lemma snd_token_resolve:
  "snd (SampleTokenResolver_resolve db proj tok) =
     concat (map (\<lambda>t. snd (run db (make_resolver t tok proj))) RESOLVER_TYPES)"
  by (simp add: SampleTokenResolver_resolve_def Let_def comp_def)

lemma keys_token_resolve:
  "pyset_keys (fst (SampleTokenResolver_resolve db proj tok)) =
     (\<Union>t\<in>set RESOLVER_TYPES.
        case fst (resolver_resolve db t (''%'' @ tok @ ''%'') (p_id proj)) of
          Inl e \<Rightarrow> {}
        | Inr samples \<Rightarrow> (\<lambda>s. HashableSample_key (HashableSample s)) ` set samples)"
  by (simp add: fst_token_resolve keys_foldl_union keys_results_run make_resolver_def)

lemma distinct_token_resolve:
  "distinct (map HashableSample_key (fst (SampleTokenResolver_resolve db proj tok)))"
  by (simp add: fst_token_resolve distinct_foldl_union)

lemma in_case_sum_iff:
  "k \<in> (case r of Inl e \<Rightarrow> {} | Inr xs \<Rightarrow> f ` set xs) \<longleftrightarrow>
     (\<exists>xs. r = Inr xs \<and> (\<exists>s\<in>set xs. f s = k))"
  by (cases r) auto

text \<open>
  C3: the set \<open>SampleTokenResolver.resolve\<close> returns for a token holds an element with
  the identity key of \<open>E\<close> exactly when the \<open>resolve\<close> of at least one registered
  resolver type, called with the wrapped token and the id of the project, returns a
  sample with that key; and no two elements of the set have the same key.
\<close>

theorem resolve_token_union:
  "(HashableSample_key E \<in> pyset_keys (fst (SampleTokenResolver_resolve db proj tok)) \<longleftrightarrow>
      (\<exists>t\<in>set RESOLVER_TYPES. \<exists>samples.
         fst (resolver_resolve db t (''%'' @ tok @ ''%'') (p_id proj)) = Inr samples
         \<and> (\<exists>s\<in>set samples. HashableSample_key (HashableSample s) = HashableSample_key E)))
   \<and> distinct (map HashableSample_key (fst (SampleTokenResolver_resolve db proj tok)))"
proof (intro conjI)
  show "HashableSample_key E \<in> pyset_keys (fst (SampleTokenResolver_resolve db proj tok)) \<longleftrightarrow>
      (\<exists>t\<in>set RESOLVER_TYPES. \<exists>samples.
         fst (resolver_resolve db t (''%'' @ tok @ ''%'') (p_id proj)) = Inr samples
         \<and> (\<exists>s\<in>set samples. HashableSample_key (HashableSample s) = HashableSample_key E))"
    unfolding keys_token_resolve UN_iff in_case_sum_iff ..
  show "distinct (map HashableSample_key (fst (SampleTokenResolver_resolve db proj tok)))"
    by (rule distinct_token_resolve)
qed

lemma demo_token_x:
  "fst (SampleTokenResolver_resolve demo_session demo_project ''x'') = [HashableSample e1]"
  by code_simp

lemma demo_name_x:
  "fst (resolver_resolve demo_session SampleNameResolver ''%x%'' (p_id demo_project)) = Inr [e1]"
  by code_simp

lemma demo_annotation_x:
  "fst (resolver_resolve demo_session StageAnnotationResolver ''%x%'' (p_id demo_project)) = Inr [e1]"
  by code_simp

text \<open>
  The sample \<open>e1\<close> is reached for the token \<open>x\<close> through its name and through the
  annotation of its stage, and is one element of the result.
\<close>

theorem resolve_token_union_witness:
  "fst (resolver_resolve demo_session SampleNameResolver (''%'' @ ''x'' @ ''%'') (p_id demo_project)) = Inr [e1]
   \<and> fst (resolver_resolve demo_session StageAnnotationResolver (''%'' @ ''x'' @ ''%'') (p_id demo_project)) = Inr [e1]
   \<and> HashableSample_key (HashableSample e1)
       \<in> pyset_keys (fst (SampleTokenResolver_resolve demo_session demo_project ''x''))
   \<and> fst (SampleTokenResolver_resolve demo_session demo_project ''x'') = [HashableSample e1]
   \<and> distinct (map HashableSample_key (fst (SampleTokenResolver_resolve demo_session demo_project ''x'')))"
proof -
  have m: "\<exists>t\<in>set RESOLVER_TYPES. \<exists>samples.
         fst (resolver_resolve demo_session t (''%'' @ ''x'' @ ''%'') (p_id demo_project)) = Inr samples
         \<and> (\<exists>s\<in>set samples. HashableSample_key (HashableSample s) = HashableSample_key (HashableSample e1))"
    using demo_name_x by (intro bexI [of _ SampleNameResolver]) (auto simp: RESOLVER_TYPES_def)
  show ?thesis
    using m resolve_token_union [of "HashableSample e1" demo_session demo_project "''x''"]
      demo_name_x demo_annotation_x demo_token_x
    by simp
qed

subsection \<open>Project lookup and the empty query\<close>

text \<open>
  C5: when the project id belongs to no project, \<open>resolve\<close> raises \<open>ProjectNotFound\<close>
  to its caller whatever the tokens are, and nothing else happens: no query is sent to
  the session and nothing is logged, so no token is resolved.
\<close>

theorem resolve_project_not_found:
  assumes "\<not> list_ex (\<lambda>p. p_obfuscated_id p = pid) (projects db)"
  shows "resolve db tokens pid = (Inl ProjectNotFound, [])"
proof -
  have "find (\<lambda>p. p_obfuscated_id p = pid) (projects db) = None"
    using assms by (simp add: find_None_iff list_ex_iff)
  then have "get_project db pid = Inl ProjectNotFound"
    by (simp add: get_project_def)
  then show ?thesis
    by (simp add: resolve_def)
qed

text \<open>The demo session has no project \<open>Q\<close>.\<close>

theorem resolve_project_not_found_witness:
  "\<not> list_ex (\<lambda>p. p_obfuscated_id p = ''Q'') (projects demo_session)
   \<and> resolve demo_session [''alpha'', ''x''] ''Q'' = (Inl ProjectNotFound, [])"
proof -
  have h: "\<not> list_ex (\<lambda>p. p_obfuscated_id p = ''Q'') (projects demo_session)"
    by code_simp
  show ?thesis
    using h resolve_project_not_found [OF h, of "[''alpha'', ''x'']"] by simp
qed

text \<open>
  C6: for a project id that resolves, \<open>resolve\<close> of the empty token sequence returns
  the empty list and does not raise (and sends no query).
\<close>

theorem resolve_empty_query:
  "get_project db pid = Inr proj \<Longrightarrow> resolve db [] pid = (Inr [], [])"
  by (simp add: resolve_def)

text \<open>The project \<open>P\<close> of the demo session resolves.\<close>

theorem resolve_empty_query_witness:
  "get_project demo_session ''P'' = Inr demo_project \<and> resolve demo_session [] ''P'' = (Inr [], [])"
proof -
  have h: "get_project demo_session ''P'' = Inr demo_project"
    by code_simp
  show ?thesis
    using h resolve_empty_query [OF h] by simp
qed

subsection \<open>The query resolver\<close>

lemma results_run_quiet: "results (fst (run (quiet db) r)) = results (fst (run db r))"
  by (cases "cls r")
    (simp_all add: results_run quiet_def no_rows_on_error_def split: sum.splits)

lemma fst_token_resolve_quiet:
  "fst (SampleTokenResolver_resolve (quiet db) proj tok) = fst (SampleTokenResolver_resolve db proj tok)"
  by (simp add: fst_token_resolve results_run_quiet)

lemma get_project_quiet: "get_project (quiet db) pid = get_project db pid"
  by (simp add: get_project_def quiet_def)

lemma fst_resolve:
  "get_project db pid = Inr proj \<Longrightarrow>
   fst (resolve db tokens pid) =
     (case filter (\<lambda>s. s \<noteq> []) (map (\<lambda>t. fst (SampleTokenResolver_resolve db proj t)) tokens) of
        [] \<Rightarrow> Inr []
      | s # ss \<Rightarrow> Inr (map sample (foldl pyset_intersection s ss)))"
  by (simp add: resolve_def Let_def comp_def reduce_def split: list.splits)

lemma fst_resolve_quiet: "fst (resolve (quiet db) tokens pid) = fst (resolve db tokens pid)"
proof (cases "get_project db pid")
  case (Inl e)
  then show ?thesis
    by (simp add: resolve_def get_project_quiet)
next
  case (Inr proj)
  then have "get_project (quiet db) pid = Inr proj"
    by (simp add: get_project_quiet)
  then show ?thesis
    using Inr by (simp add: fst_resolve fst_token_resolve_quiet)
qed

lemma resolve_raises_only_project_lookup:
  "fst (resolve db tokens pid) = Inl x \<Longrightarrow> get_project db pid = Inl x"
proof (cases "get_project db pid")
  case (Inl e)
  then show "fst (resolve db tokens pid) = Inl x \<Longrightarrow> ?thesis"
    by (simp add: resolve_def)
next
  case (Inr proj)
  show "fst (resolve db tokens pid) = Inl x \<Longrightarrow> ?thesis"
    unfolding fst_resolve [OF Inr] by (simp split: list.splits)
qed

lemma pyset_union_empty [simp]: "pyset_union a [] = a"
  by (simp add: pyset_union_def)



lemma demo_project_P: "get_project demo_session ''P'' = Inr demo_project"
  by code_simp

lemma demo_token_zzz: "fst (SampleTokenResolver_resolve demo_session demo_project ''zzz'') = []"
  by code_simp

lemma demo_resolve_alpha_zzz: "fst (resolve demo_session [''alpha'', ''zzz''] ''P'') = Inr [n1, n2]"
  by code_simp

lemma demo_resolve_zzz_x: "fst (resolve demo_session [''zzz'', ''x''] ''P'') = Inr [e1]"
  by code_simp

text \<open>
  C4: when the \<open>resolve\<close> of one resolver type raises for a token, the exception is
  logged by \<open>run\<close>; that resolver's result set is empty; the set of the token is the
  union of the result sets of the other resolver types; the sets of every token, and
  the result of the whole query, are what they would be had the session returned no
  rows in place of each exception; and the only exception that leaves \<open>resolve\<close> is
  the one of the project lookup. (The token resolver itself has no way to raise: its
  result is a set and a list of events.)
\<close>

theorem matcher_failure_isolated:
  assumes "t \<in> set RESOLVER_TYPES"
    and "fst (resolver_resolve db t (''%'' @ tok @ ''%'') (p_id proj)) = Inl e"
  shows "LogError t e \<in> set (snd (SampleTokenResolver_resolve db proj tok))
    \<and> results (fst (run db (make_resolver t tok proj))) = []
    \<and> fst (SampleTokenResolver_resolve db proj tok) =
        foldl pyset_union []
          (map (\<lambda>c. results (fst (run db (make_resolver c tok proj))))
             (filter (\<lambda>c. c \<noteq> t) RESOLVER_TYPES))
    \<and> fst (SampleTokenResolver_resolve db proj tok) = fst (SampleTokenResolver_resolve (quiet db) proj tok)
    \<and> fst (resolve db tokens pid) = fst (resolve (quiet db) tokens pid)
    \<and> (\<forall>x. fst (resolve db tokens pid) = Inl x \<longrightarrow> get_project db pid = Inl x)"
proof (intro conjI)
  have raised: "fst (resolver_resolve db (cls (make_resolver t tok proj))
      (token (make_resolver t tok proj)) (p_id (project (make_resolver t tok proj)))) = Inl e"
    using assms(2) by (simp add: make_resolver_def)
  have "LogError t e \<in> set (snd (run db (make_resolver t tok proj)))"
    unfolding events_run raised by (simp add: make_resolver_def)
  then show "LogError t e \<in> set (snd (SampleTokenResolver_resolve db proj tok))"
    using assms(1) unfolding snd_token_resolve by auto
  show empty: "results (fst (run db (make_resolver t tok proj))) = []"
    unfolding results_run raised by simp
  show "fst (SampleTokenResolver_resolve db proj tok) =
        foldl pyset_union []
          (map (\<lambda>c. results (fst (run db (make_resolver c tok proj))))
             (filter (\<lambda>c. c \<noteq> t) RESOLVER_TYPES))"
    using empty by (cases t) (simp_all add: fst_token_resolve RESOLVER_TYPES_def)
  show "fst (SampleTokenResolver_resolve db proj tok) = fst (SampleTokenResolver_resolve (quiet db) proj tok)"
    by (simp add: fst_token_resolve_quiet)
  show "fst (resolve db tokens pid) = fst (resolve (quiet db) tokens pid)"
    by (simp add: fst_resolve_quiet)
  show "\<forall>x. fst (resolve db tokens pid) = Inl x \<longrightarrow> get_project db pid = Inl x"
    using resolve_raises_only_project_lookup by blast
qed

lemma flaky_method_x:
  "fst (resolver_resolve flaky_session StageMethodResolver ''%x%'' (p_id demo_project))
     = Inl (OperationalError ''database is locked'')"
  by code_simp

lemma flaky_token_x:
  "fst (SampleTokenResolver_resolve flaky_session demo_project ''x'') = [HashableSample e1]"
  by code_simp

lemma flaky_resolve_x_ray: "fst (resolve flaky_session [''x'', ''ray''] ''P'') = Inr [e1]"
  by code_simp

text \<open>
  The method query of the flaky session raises for every token; the sample \<open>e1\<close> is
  still found through its name and the annotation of its stage.
\<close>

theorem matcher_failure_isolated_witness:
  "StageMethodResolver \<in> set RESOLVER_TYPES
   \<and> fst (resolver_resolve flaky_session StageMethodResolver (''%'' @ ''x'' @ ''%'') (p_id demo_project))
       = Inl (OperationalError ''database is locked'')
   \<and> LogError StageMethodResolver (OperationalError ''database is locked'')
       \<in> set (snd (SampleTokenResolver_resolve flaky_session demo_project ''x''))
   \<and> fst (SampleTokenResolver_resolve flaky_session demo_project ''x'') = [HashableSample e1]
   \<and> fst (resolve flaky_session [''x'', ''ray''] ''P'') = Inr [e1]
   \<and> fst (resolve (quiet flaky_session) [''x'', ''ray''] ''P'') = Inr [e1]"
proof -
  have a: "StageMethodResolver \<in> set RESOLVER_TYPES"
    by (simp add: RESOLVER_TYPES_def)
  have b: "fst (resolver_resolve flaky_session StageMethodResolver (''%'' @ ''x'' @ ''%'') (p_id demo_project))
       = Inl (OperationalError ''database is locked'')"
    using flaky_method_x by simp
  show ?thesis
    using a b matcher_failure_isolated [OF a b, of "[''x'', ''ray'']" "''P''"]
      flaky_token_x flaky_resolve_x_ray
    by simp
qed




text \<open>
  C1 asks that a token whose set is empty empties the result of the query. The code
  drops the empty sets before it intersects. Evaluation at the tokens \<open>alpha\<close>, \<open>zzz\<close>:
  nothing matches \<open>zzz\<close>, and the query returns the two samples that match \<open>alpha\<close>.
\<close>

theorem resolve_skips_empty_token_set:
  "fst (SampleTokenResolver_resolve demo_session demo_project ''zzz'') = []
   \<and> fst (resolve demo_session [''alpha'', ''zzz''] ''P'') = Inr [n1, n2]"
  using demo_token_zzz demo_resolve_alpha_zzz by simp

text \<open>
  C2 asks that the result of a query with at least one token is the intersection of
  the sets of all its tokens. Evaluation at the tokens \<open>zzz\<close>, \<open>x\<close>: the intersection of
  the two sets has no key, and the query returns the sample \<open>e1\<close>.
\<close>

theorem resolve_not_intersection_of_all:
  "get_project demo_session ''P'' = Inr demo_project
   \<and> fst (resolve demo_session [''zzz'', ''x''] ''P'') = Inr [e1]
   \<and> (\<Inter>t\<in>set [''zzz'', ''x'']. pyset_keys (fst (SampleTokenResolver_resolve demo_session demo_project t))) = {}"
  using demo_project_P demo_resolve_zzz_x demo_token_zzz by simp

subsection \<open>The pattern given to the session\<close>










end
